theory Spec2Isabelle
  imports Main
begin

section \<open>Data model of main.go\<close>

text \<open>
  The structs of main.go, field by field. Go's \<open>int\<close> fields are modelled as \<open>int\<close>:
  the program never does arithmetic on a configured number (it only copies and prints
  them), and the one counter it increments, \<open>i\<close> in \<open>addServerWithRetry\<close>, is
  incremented only while \<open>i < retries\<close>, so it cannot overflow.
\<close>

record BackendConfig =
  Name :: string
  IP :: string
  Port :: int
  Weight :: int

record HealthCheckConfig =
  Enabled :: bool
  Interval :: int
  Fall :: int
  Rise :: int

record RetryPolicyConfig =
  Retries :: int
  Redispatch :: bool

record Config =
  HaproxyEndpoint :: string
  APIKey :: string
  LoadBalancingAlgorithm :: string
  Backends :: "BackendConfig list"
  HealthCheck :: HealthCheckConfig
  RetryPolicy :: RetryPolicyConfig

text \<open>
  \<open>haproxy.HAProxy\<close> and \<open>haproxy.Server\<close> are declared by the client library, outside
  main.go. The records below hold the fields that main.go assigns, with the types
  those assignments force: \<open>Inter\<close> receives a \<open>string\<close>, \<open>Fall\<close> and \<open>Rise\<close> an
  \<open>int\<close>, \<open>Check\<close> a \<open>bool\<close>. A Go struct value always has all its fields: a field
  the program does not assign holds the zero value of its type.
\<close>

record HAProxy =
  Endpoint :: string
  ApiKey :: string

record Server =
  Server_Name :: string
  Server_IP :: string
  Server_Port :: int
  Server_Weight :: int
  Server_Check :: bool
  Server_Inter :: string
  Server_Fall :: int
  Server_Rise :: int

section \<open>Errors\<close>

text \<open>
  A Go \<open>error\<close> is \<open>error option\<close>, with \<open>None\<close> for \<open>nil\<close>. \<open>ClientError\<close> is an
  error returned by the client library (or by the file and JSON layer) and carries its
  message. The other constructors are the four \<open>fmt.Errorf\<close> calls of main.go, each
  with its arguments; the argument of \<open>%w\<close> is the wrapped cause. In
  \<open>addServerWithRetry\<close> that argument is the variable \<open>err\<close>, which may still be nil.
\<close>

datatype error =
    ClientError string
  | ConnectFailed error
  | AddServerFailed string "error option"
  | RetriesFailed int error
  | RedispatchFailed error

fun Unwrap :: "error \<Rightarrow> error option" where
  "Unwrap (ClientError m) = None"
| "Unwrap (ConnectFailed e) = Some e"
| "Unwrap (AddServerFailed n c) = c"
| "Unwrap (RetriesFailed n e) = Some e"
| "Unwrap (RedispatchFailed e) = Some e"

section \<open>The control plane and the output\<close>

text \<open>
  The four methods of the client that main.go calls. The remote side is not part of the
  program: it is an oracle \<open>env\<close> that answers a call from the client handle, the
  calls answered so far and the call itself. The run records every call with its
  answer, in order, in \<open>calls\<close>.
\<close>

datatype call =
    Ping
  | AddServer Server
  | SetLoadBalancingAlgorithm string
  | SetConfig string string

type_synonym trace = "(call \<times> error option) list"

type_synonym env = "HAProxy \<Rightarrow> trace \<Rightarrow> call \<Rightarrow> error option"

text \<open>
  What the program writes: one constructor for each \<open>fmt.Printf\<close>, \<open>log.Printf\<close> and
  \<open>log.Fatalf\<close> of main.go, carrying the arguments of its format string.
\<close>

datatype message =
    Fatal_loadConfig error
  | Fatal_newHAProxyClient error
  | Log_addServerFinal string error
  | Fatal_algorithm error
  | Print_algorithm string
  | Fatal_retryPolicy error
  | Print_added string
  | Print_addFailed string int int error
  | Print_retryPolicy int bool

record world =
  calls :: trace
  out :: "message list"

definition start :: world where
  "start = \<lparr>calls = [], out = []\<rparr>"

definition invoke :: "env \<Rightarrow> HAProxy \<Rightarrow> call \<Rightarrow> world \<Rightarrow> error option \<times> world" where
  "invoke env client c w =
     (let r = env client (calls w) c
      in (r, w\<lparr>calls := calls w @ [(c, r)]\<rparr>))"

definition emit :: "message \<Rightarrow> world \<Rightarrow> world" where
  "emit m w = w\<lparr>out := out w @ [m]\<rparr>"

section \<open>Formatting\<close>

text \<open>The verb \<open>%d\<close> of \<open>fmt\<close> on an integer: base 10, a minus sign when negative.\<close>

definition digit :: "nat \<Rightarrow> char" where
  "digit n = ''0123456789'' ! n"

fun digits :: "nat \<Rightarrow> string" where
  "digits n = (if n < 10 then [digit n] else digits (n div 10) @ [digit (n mod 10)])"

definition fmt_d :: "int \<Rightarrow> string" where
  "fmt_d i = (if i < 0 then CHR ''-'' # digits (nat (- i)) else digits (nat i))"

section \<open>The functions of main.go\<close>

definition newHAProxyClient :: "env \<Rightarrow> string \<Rightarrow> string \<Rightarrow> world \<Rightarrow> (error + HAProxy) \<times> world" where
  "newHAProxyClient env endpoint apiKey w =
     (let client = \<lparr>Endpoint = endpoint, ApiKey = apiKey\<rparr>;
          (err, w1) = invoke env client Ping w
      in case err of
           Some e \<Rightarrow> (Inl (ConnectFailed e), w1)
         | None \<Rightarrow> (Inr client, w1))"

text \<open>
  The loop of \<open>addServerWithRetry\<close>, from the state it has at the loop test: the
  counter \<open>i\<close> and the variable \<open>err\<close>.
\<close>

function addServer_loop ::
  "env \<Rightarrow> HAProxy \<Rightarrow> Server \<Rightarrow> int \<Rightarrow> int \<Rightarrow> error option \<Rightarrow> world \<Rightarrow> error option \<times> world" where
  "addServer_loop env client server retries i err w =
     (if i < retries then
        (case invoke env client (AddServer server) w of
           (None, w1) \<Rightarrow> (None, emit (Print_added (Server_Name server)) w1)
         | (Some e, w1) \<Rightarrow>
             addServer_loop env client server retries (i + 1) (Some e)
               (emit (Print_addFailed (Server_Name server) (i + 1) retries e) w1))
      else (Some (AddServerFailed (Server_Name server) err), w))"
  by pat_completeness auto
termination
  by (relation "measure (\<lambda>(env, client, server, retries, i, err, w). nat (retries - i))") auto

definition addServerWithRetry ::
  "env \<Rightarrow> HAProxy \<Rightarrow> Server \<Rightarrow> int \<Rightarrow> world \<Rightarrow> error option \<times> world" where
  "addServerWithRetry env client server retries w =
     addServer_loop env client server retries 0 None w"

definition setRetryPolicy ::
  "env \<Rightarrow> HAProxy \<Rightarrow> RetryPolicyConfig \<Rightarrow> world \<Rightarrow> error option \<times> world" where
  "setRetryPolicy env client rp w =
     (case invoke env client (SetConfig ''retries'' (fmt_d (Retries rp))) w of
        (Some e, w1) \<Rightarrow> (Some (RetriesFailed (Retries rp) e), w1)
      | (None, w1) \<Rightarrow>
          (let redispatchVal = (if Redispatch rp then ''on'' else ''off'')
           in case invoke env client (SetConfig ''option redispatch'' redispatchVal) w1 of
                (Some e, w2) \<Rightarrow> (Some (RedispatchFailed e), w2)
              | (None, w2) \<Rightarrow>
                  (None, emit (Print_retryPolicy (Retries rp) (Redispatch rp)) w2)))"

text \<open>
  The server value that the body of the loop of \<open>main\<close> builds for one backend: the
  struct literal, which leaves \<open>Inter\<close>, \<open>Fall\<close> and \<open>Rise\<close> at their zero values, and
  then the three assignments made when health checking is enabled. The conversion
  \<open>int64(backend.Weight)\<close> keeps the value.
\<close>

definition server_of :: "Config \<Rightarrow> BackendConfig \<Rightarrow> Server" where
  "server_of config backend =
     (let server = \<lparr>Server_Name = Name backend, Server_IP = IP backend,
                    Server_Port = Port backend, Server_Weight = Weight backend,
                    Server_Check = Enabled (HealthCheck config),
                    Server_Inter = [], Server_Fall = 0, Server_Rise = 0\<rparr>
      in if Enabled (HealthCheck config)
         then server\<lparr>Server_Inter := fmt_d (Interval (HealthCheck config)) @ ''s'',
                     Server_Fall := Fall (HealthCheck config),
                     Server_Rise := Rise (HealthCheck config)\<rparr>
         else server)"

text \<open>The loop of \<open>main\<close> over \<open>config.Backends\<close>.\<close>

fun add_backends :: "env \<Rightarrow> HAProxy \<Rightarrow> Config \<Rightarrow> BackendConfig list \<Rightarrow> world \<Rightarrow> world" where
  "add_backends env client config [] w = w"
| "add_backends env client config (backend # rest) w =
     (case addServerWithRetry env client (server_of config backend) 3 w of
        (Some e, w1) \<Rightarrow>
          add_backends env client config rest (emit (Log_addServerFinal (Name backend) e) w1)
      | (None, w1) \<Rightarrow> add_backends env client config rest w1)"

text \<open>
  \<open>main\<close>. The file and JSON layer is outside the model: \<open>main\<close> receives what
  \<open>loadConfig\<close> returned. \<open>log.Fatalf\<close> writes its message and ends the process with
  status 1, which is the outcome \<open>Fatal\<close>; \<open>Done\<close> is the return from \<open>main\<close>.
\<close>

datatype outcome = Fatal | Done

definition main :: "env \<Rightarrow> error + Config \<Rightarrow> outcome \<times> world" where
  "main env loaded =
     (case loaded of
        Inl e \<Rightarrow> (Fatal, emit (Fatal_loadConfig e) start)
      | Inr config \<Rightarrow>
          (case newHAProxyClient env (HaproxyEndpoint config) (APIKey config) start of
             (Inl e, w1) \<Rightarrow> (Fatal, emit (Fatal_newHAProxyClient e) w1)
           | (Inr client, w1) \<Rightarrow>
               (let w2 = add_backends env client config (Backends config) w1
                in case invoke env client
                          (SetLoadBalancingAlgorithm (LoadBalancingAlgorithm config)) w2 of
                     (Some e, w3) \<Rightarrow> (Fatal, emit (Fatal_algorithm e) w3)
                   | (None, w3) \<Rightarrow>
                       (case setRetryPolicy env client (RetryPolicy config)
                               (emit (Print_algorithm (LoadBalancingAlgorithm config)) w3) of
                          (Some e, w5) \<Rightarrow> (Fatal, emit (Fatal_retryPolicy e) w5)
                        | (None, w5) \<Rightarrow> (Done, w5)))))"

section \<open>Notions used to state the properties\<close>

text \<open>
  The client handle that \<open>main\<close> builds from a configuration, and the world right
  after a successful probe.
\<close>

definition client_of :: "Config \<Rightarrow> HAProxy" where
  "client_of config = \<lparr>Endpoint = HaproxyEndpoint config, ApiKey = APIKey config\<rparr>"

definition connected :: world where
  "connected = \<lparr>calls = [(Ping, None)], out = []\<rparr>"

text \<open>
  \<open>attempts config bs ks\<close> is the sequence of registration calls in which the
  \<open>n\<close>-th backend of \<open>bs\<close> is attempted \<open>ks ! n\<close> times in a row.
\<close>

definition attempts :: "Config \<Rightarrow> BackendConfig list \<Rightarrow> nat list \<Rightarrow> call list" where
  "attempts config bs ks =
     concat (map2 (\<lambda>b k. replicate k (AddServer (server_of config b))) bs ks)"

text \<open>The number that a string of decimal digits denotes.\<close>

definition decimal :: "string \<Rightarrow> nat" where
  "decimal cs = foldl (\<lambda>a c. 10 * a + (of_char c - 48)) 0 cs"

text \<open>
  \<open>is_decimal_of v n\<close>: the string \<open>v\<close> is the decimal numeral of \<open>n\<close>, that is, a
  non-empty string of the digits 0 to 9 with no leading zero (except the numeral 0
  itself) that denotes \<open>n\<close>. \<open>is_stringified v i\<close>: \<open>v\<close> is the integer \<open>i\<close> written
  in decimal, with a leading minus sign exactly when \<open>i\<close> is negative.
\<close>

definition is_decimal_of :: "string \<Rightarrow> nat \<Rightarrow> bool" where
  "is_decimal_of v n =
     (v \<noteq> [] \<and> set v \<subseteq> set ''0123456789'' \<and> (hd v = CHR ''0'' \<longrightarrow> v = ''0'') \<and>
      decimal v = n)"

definition is_stringified :: "string \<Rightarrow> int \<Rightarrow> bool" where
  "is_stringified v i =
     (if i < 0
      then (case v of [] \<Rightarrow> False | c # u \<Rightarrow> c = CHR ''-'' \<and> is_decimal_of u (nat (- i)))
      else is_decimal_of v (nat i))"

section \<open>Example configurations and control planes\<close>

text \<open>The configuration of the README, and the same with health checking disabled.\<close>

definition backend1 :: BackendConfig where
  "backend1 = \<lparr>Name = ''server1'', IP = ''192.168.1.101'', Port = 80, Weight = 10\<rparr>"

definition backend2 :: BackendConfig where
  "backend2 = \<lparr>Name = ''server2'', IP = ''192.168.1.102'', Port = 80, Weight = 10\<rparr>"

definition example_config :: Config where
  "example_config =
     \<lparr>HaproxyEndpoint = ''http://localhost:9000'', APIKey = ''your_api_key_here'',
      LoadBalancingAlgorithm = ''roundrobin'', Backends = [backend1, backend2],
      HealthCheck = \<lparr>Enabled = True, Interval = 5, Fall = 3, Rise = 2\<rparr>,
      RetryPolicy = \<lparr>Retries = 3, Redispatch = True\<rparr>\<rparr>"

definition unchecked_config :: Config where
  "unchecked_config =
     example_config\<lparr>HealthCheck := \<lparr>Enabled = False, Interval = 5, Fall = 3, Rise = 2\<rparr>\<rparr>"

definition example_client :: HAProxy where
  "example_client = \<lparr>Endpoint = ''http://localhost:9000'', ApiKey = ''your_api_key_here''\<rparr>"

definition server1 :: Server where
  "server1 = \<lparr>Server_Name = ''server1'', Server_IP = ''192.168.1.101'', Server_Port = 80,
      Server_Weight = 10, Server_Check = True, Server_Inter = ''5s'', Server_Fall = 3,
      Server_Rise = 2\<rparr>"

definition server2 :: Server where
  "server2 = \<lparr>Server_Name = ''server2'', Server_IP = ''192.168.1.102'', Server_Port = 80,
      Server_Weight = 10, Server_Check = True, Server_Inter = ''5s'', Server_Fall = 3,
      Server_Rise = 2\<rparr>"

definition unchecked1 :: Server where
  "unchecked1 = \<lparr>Server_Name = ''server1'', Server_IP = ''192.168.1.101'', Server_Port = 80,
      Server_Weight = 10, Server_Check = False, Server_Inter = [], Server_Fall = 0,
      Server_Rise = 0\<rparr>"

definition unchecked2 :: Server where
  "unchecked2 = \<lparr>Server_Name = ''server2'', Server_IP = ''192.168.1.102'', Server_Port = 80,
      Server_Weight = 10, Server_Check = False, Server_Inter = [], Server_Fall = 0,
      Server_Rise = 0\<rparr>"

definition refused :: error where
  "refused = ClientError ''connection refused''"

text \<open>
  Control planes: one that accepts every call, one that cannot be reached, one that
  refuses \<open>server1\<close> every time, one that refuses the first attempt for each server,
  one that refuses the algorithm and one that refuses the \<open>retries\<close> setting.
\<close>

definition always_ok :: env where
  "always_ok client h c = None"

definition ping_down :: env where
  "ping_down client h c = (case c of Ping \<Rightarrow> Some refused | _ \<Rightarrow> None)"

definition server1_down :: env where
  "server1_down client h c =
     (case c of
        AddServer s \<Rightarrow> if Server_Name s = ''server1'' then Some refused else None
      | _ \<Rightarrow> None)"

definition first_attempt_fails :: env where
  "first_attempt_fails client h c =
     (case c of
        AddServer s \<Rightarrow> if AddServer s \<in> set (map fst h) then None else Some refused
      | _ \<Rightarrow> None)"

definition algorithm_rejected :: env where
  "algorithm_rejected client h c =
     (case c of SetLoadBalancingAlgorithm a \<Rightarrow> Some refused | _ \<Rightarrow> None)"

definition retries_rejected :: env where
  "retries_rejected client h c =
     (case c of SetConfig k v \<Rightarrow> if k = ''retries'' then Some refused else None | _ \<Rightarrow> None)"

section \<open>Basic facts about the model\<close>

declare addServer_loop.simps [simp del]

declare digits.simps [simp del]

lemma invoke_eq:
  "invoke env client c w =
     (env client (calls w) c, w\<lparr>calls := calls w @ [(c, env client (calls w) c)]\<rparr>)"
  by (simp add: invoke_def Let_def)

lemma emit_calls: "calls (emit m w) = calls w"
  by (simp add: emit_def)

lemma emit_out: "out (emit m w) = out w @ [m]"
  by (simp add: emit_def)

lemma server_of_Name: "Server_Name (server_of config b) = Name b"
  by (simp add: server_of_def Let_def)

subsection \<open>Decimal formatting\<close>

lemma digit_code: "n < 10 \<Longrightarrow> of_char (digit n) = (48 + n :: nat)"
proof -
  assume "n < 10"
  then have "n \<in> {0, 1, 2, 3, 4, 5, 6, 7, 8, 9}" by auto
  then show ?thesis by (auto simp: digit_def)
qed

lemma decimal_snoc: "decimal (cs @ [c]) = 10 * decimal cs + (of_char c - 48)"
  by (simp add: decimal_def)

lemma decimal_digits: "decimal (digits n) = n"
proof (induction n rule: digits.induct)
  case (1 n)
  show ?case
  proof (cases "n < 10")
    case True
    then show ?thesis by (subst digits.simps) (simp add: decimal_def digit_code)
  next
    case False
    from False have "decimal (digits (n div 10)) = n div 10" by (rule "1.IH")
    with False show ?thesis
      by (subst digits.simps) (simp add: decimal_snoc digit_code)
  qed
qed

lemma fmt_d_nonneg: "0 \<le> i \<Longrightarrow> decimal (fmt_d i) = nat i"
  by (simp add: fmt_d_def decimal_digits)

lemma fmt_d_neg: "i < 0 \<Longrightarrow> fmt_d i = CHR ''-'' # fmt_d (- i)"
  by (simp add: fmt_d_def)

lemma digit_in_range: "n < 10 \<Longrightarrow> digit n \<in> set ''0123456789''"
proof -
  assume "n < 10"
  then have "n \<in> {0, 1, 2, 3, 4, 5, 6, 7, 8, 9}" by auto
  then show ?thesis by (auto simp: digit_def)
qed

lemma digit_zero: "n < 10 \<Longrightarrow> digit n = CHR ''0'' \<Longrightarrow> n = 0"
proof -
  assume "n < 10" and z: "digit n = CHR ''0''"
  then have "n \<in> {0, 1, 2, 3, 4, 5, 6, 7, 8, 9}" by auto
  with z show ?thesis by (auto simp: digit_def)
qed

lemma digits_nonempty: "digits n \<noteq> []"
  by (subst digits.simps) simp

lemma digits_chars: "set (digits n) \<subseteq> set ''0123456789''"
proof (induction n rule: digits.induct)
  case (1 n)
  show ?case
  proof (cases "n < 10")
    case True
    with digit_in_range [of n] show ?thesis by (subst digits.simps) simp
  next
    case False
    from False have "set (digits (n div 10)) \<subseteq> set ''0123456789''" by (rule "1.IH")
    moreover have "digit (n mod 10) \<in> set ''0123456789''" by (rule digit_in_range) simp
    ultimately show ?thesis using False by (subst digits.simps) simp
  qed
qed

lemma digits_hd_zero: "hd (digits n) = CHR ''0'' \<Longrightarrow> n = 0"
proof (induction n rule: digits.induct)
  case (1 n)
  show ?case
  proof (cases "n < 10")
    case True
    with "1.prems" have "digit n = CHR ''0''" by (subst (asm) digits.simps) simp
    with True show ?thesis by (rule digit_zero)
  next
    case False
    from "1.prems" False have "hd (digits (n div 10)) = CHR ''0''"
      by (subst (asm) digits.simps) (simp add: digits_nonempty)
    with False have "n div 10 = 0" by (rule "1.IH")
    with False show ?thesis by simp
  qed
qed

lemma digits_0: "digits 0 = ''0''"
  by (simp add: digits.simps digit_def)

lemma digits_is_decimal: "is_decimal_of (digits n) n"
  unfolding is_decimal_of_def
proof (intro conjI impI)
  show "digits n \<noteq> []" by (rule digits_nonempty)
  show "set (digits n) \<subseteq> set ''0123456789''" by (rule digits_chars)
  show "decimal (digits n) = n" by (rule decimal_digits)
  assume "hd (digits n) = CHR ''0''"
  then have "n = 0" by (rule digits_hd_zero)
  then show "digits n = ''0''" by (simp add: digits_0)
qed

lemma fmt_d_stringified: "is_stringified (fmt_d i) i"
  by (simp add: is_stringified_def fmt_d_def digits_is_decimal)

lemma fmt_d_3: "fmt_d 3 = ''3''"
  by (simp add: fmt_d_def digit_def digits.simps)

lemma fmt_d_5: "fmt_d 5 = ''5''"
  by (simp add: fmt_d_def digit_def digits.simps)

subsection \<open>One turn of the retry loop\<close>

lemma loop_exhausted:
  "\<not> i < retries \<Longrightarrow>
   addServer_loop env client server retries i err w =
     (Some (AddServerFailed (Server_Name server) err), w)"
  by (simp add: addServer_loop.simps)

lemma loop_ok:
  "i < retries \<Longrightarrow> env client (calls w) (AddServer server) = None \<Longrightarrow>
   addServer_loop env client server retries i err w =
     (None, emit (Print_added (Server_Name server))
              (w\<lparr>calls := calls w @ [(AddServer server, None)]\<rparr>))"
  by (subst addServer_loop.simps) (simp add: invoke_eq)

lemma loop_fail:
  "i < retries \<Longrightarrow> env client (calls w) (AddServer server) = Some e \<Longrightarrow>
   addServer_loop env client server retries i err w =
     addServer_loop env client server retries (i + 1) (Some e)
       (emit (Print_addFailed (Server_Name server) (i + 1) retries e)
          (w\<lparr>calls := calls w @ [(AddServer server, Some e)]\<rparr>))"
  by (subst addServer_loop.simps) (simp add: invoke_eq)

text \<open>
  The loop only ever adds calls for its own server: at most \<open>retries - i\<close> of them,
  and at least one when it is entered with \<open>i < retries\<close>.
\<close>

lemma addServer_loop_segment:
  "\<exists>k seg. (i < retries \<longrightarrow> 1 \<le> k) \<and> int k \<le> max 0 (retries - i) \<and>
     calls (snd (addServer_loop env client server retries i err w)) = calls w @ seg \<and>
     map fst seg = replicate k (AddServer server)"
proof (induction env client server retries i err w rule: addServer_loop.induct)
  case (1 env client server retries i err w)
  show ?case
  proof (cases "i < retries")
    case False
    then have "addServer_loop env client server retries i err w =
        (Some (AddServerFailed (Server_Name server) err), w)"
      by (rule loop_exhausted)
    then show ?thesis by (intro exI [of _ 0] exI [of _ "[]"]) (simp add: False)
  next
    case True
    show ?thesis
    proof (cases "env client (calls w) (AddServer server)")
      case None
      have "calls (snd (addServer_loop env client server retries i err w)) =
          calls w @ [(AddServer server, None)]"
        using True None by (simp add: loop_ok emit_def)
      then show ?thesis using True
        by (intro exI [of _ 1] exI [of _ "[(AddServer server, None)]"]) simp
    next
      case (Some e)
      let ?w1 = "emit (Print_addFailed (Server_Name server) (i + 1) retries e)
                   (w\<lparr>calls := calls w @ [(AddServer server, Some e)]\<rparr>)"
      have inv: "invoke env client (AddServer server) w =
          (Some e, w\<lparr>calls := calls w @ [(AddServer server, Some e)]\<rparr>)"
        by (simp add: invoke_eq Some)
      from "1.IH" [OF True inv [symmetric] refl]
      obtain k seg where k: "int k \<le> max 0 (retries - (i + 1))"
        and seg: "calls (snd (addServer_loop env client server retries (i + 1) (Some e) ?w1)) =
                    calls ?w1 @ seg"
        and cs: "map fst seg = replicate k (AddServer server)"
        by blast
      have "calls (snd (addServer_loop env client server retries i err w)) =
          calls w @ ((AddServer server, Some e) # seg)"
        using True Some by (simp add: loop_fail seg emit_calls)
      moreover have "map fst ((AddServer server, Some e) # seg) =
          replicate (Suc k) (AddServer server)"
        by (simp add: cs)
      moreover have "int (Suc k) \<le> max 0 (retries - i)" using k True by simp
      ultimately show ?thesis
        by (intro exI [of _ "Suc k"] exI [of _ "(AddServer server, Some e) # seg"]) simp
    qed
  qed
qed

lemma addServerWithRetry_segment:
  "\<exists>k seg. 1 \<le> k \<and> k \<le> 3 \<and>
     calls (snd (addServerWithRetry env client server 3 w)) = calls w @ seg \<and>
     map fst seg = replicate k (AddServer server)"
proof -
  from addServer_loop_segment [of 0 3 env client server None w]
  obtain k seg where "1 \<le> k" "int k \<le> 3"
    "calls (snd (addServer_loop env client server 3 0 None w)) = calls w @ seg"
    "map fst seg = replicate k (AddServer server)"
    by auto
  then show ?thesis unfolding addServerWithRetry_def
    by (intro exI [of _ k] exI [of _ seg]) simp
qed

subsection \<open>The loop over the backends\<close>

lemma add_backends_segment:
  "\<exists>ks seg. length ks = length bs \<and> (\<forall>k\<in>set ks. 1 \<le> k \<and> k \<le> 3) \<and>
     calls (add_backends env client config bs w) = calls w @ seg \<and>
     map fst seg = attempts config bs ks"
proof (induction bs arbitrary: w)
  case Nil
  show ?case by (intro exI [of _ "[]"]) (simp add: attempts_def)
next
  case (Cons b bs)
  obtain r w1 where r: "addServerWithRetry env client (server_of config b) 3 w = (r, w1)"
    by (cases "addServerWithRetry env client (server_of config b) 3 w")
  from addServerWithRetry_segment [of env client "server_of config b" w]
  obtain k seg where k: "1 \<le> k" "k \<le> 3" and seg: "calls w1 = calls w @ seg"
    and cs: "map fst seg = replicate k (AddServer (server_of config b))"
    by (auto simp: r)
  define w2 where
    "w2 = (case r of Some e \<Rightarrow> emit (Log_addServerFinal (Name b) e) w1 | None \<Rightarrow> w1)"
  have step: "add_backends env client config (b # bs) w = add_backends env client config bs w2"
    by (simp add: r w2_def split: option.split)
  have w2: "calls w2 = calls w @ seg"
    by (simp add: w2_def seg emit_def split: option.split)
  from Cons.IH [of w2]
  obtain ks seg' where ks: "length ks = length bs" "\<forall>k\<in>set ks. 1 \<le> k \<and> k \<le> 3"
    and seg': "calls (add_backends env client config bs w2) = calls w2 @ seg'"
    and cs': "map fst seg' = attempts config bs ks"
    by blast
  show ?case
  proof (intro exI [of _ "k # ks"] exI [of _ "seg @ seg'"] conjI)
    show "length (k # ks) = length (b # bs)" by (simp add: ks)
    show "\<forall>k\<in>set (k # ks). 1 \<le> k \<and> k \<le> 3" using k ks by simp
    show "calls (add_backends env client config (b # bs) w) = calls w @ seg @ seg'"
      by (subst step) (simp add: seg' w2)
    show "map fst (seg @ seg') = attempts config (b # bs) (k # ks)"
      using cs cs' by (simp add: attempts_def)
  qed
qed

lemma attempts_origin:
  "c \<in> set (attempts config bs ks) \<Longrightarrow> \<exists>b\<in>set bs. c = AddServer (server_of config b)"
  by (auto simp: attempts_def dest!: set_zip_leftD)

lemma attempts_segment:
  "map fst seg = attempts config bs ks \<Longrightarrow> x \<in> set seg \<Longrightarrow> \<exists>s. fst x = AddServer s"
proof -
  assume a: "map fst seg = attempts config bs ks" and x: "x \<in> set seg"
  from x have "fst x \<in> set (map fst seg)" by simp
  with a have "fst x \<in> set (attempts config bs ks)" by simp
  from attempts_origin [OF this] show ?thesis by blast
qed

subsection \<open>The retry policy\<close>

lemma setRetryPolicy_segment:
  "\<exists>seg. calls (snd (setRetryPolicy env client rp w)) = calls w @ seg \<and>
     (\<forall>x\<in>set seg. \<exists>k v. fst x = SetConfig k v)"
  by (simp add: setRetryPolicy_def invoke_eq emit_calls Let_def split: option.split)

lemma setRetryPolicy_out:
  "\<exists>ms. out (snd (setRetryPolicy env client rp w)) = out w @ ms"
  by (simp add: setRetryPolicy_def invoke_eq emit_out Let_def split: option.split)

subsection \<open>The stages of main\<close>

lemma main_load_failed:
  "main env (Inl e) = (Fatal, \<lparr>calls = [], out = [Fatal_loadConfig e]\<rparr>)"
  by (simp add: main_def start_def emit_def)

lemma main_ping_failed:
  "env (client_of config) [] Ping = Some e \<Longrightarrow>
   main env (Inr config) =
     (Fatal, \<lparr>calls = [(Ping, Some e)], out = [Fatal_newHAProxyClient (ConnectFailed e)]\<rparr>)"
  by (simp add: main_def newHAProxyClient_def invoke_eq start_def emit_def client_of_def)

lemma main_algorithm_failed:
  assumes "env (client_of config) [] Ping = None"
    and "w2 = add_backends env (client_of config) config (Backends config) connected"
    and "env (client_of config) (calls w2)
           (SetLoadBalancingAlgorithm (LoadBalancingAlgorithm config)) = Some e"
  shows "main env (Inr config) =
     (Fatal, emit (Fatal_algorithm e)
        (w2\<lparr>calls := calls w2 @
           [(SetLoadBalancingAlgorithm (LoadBalancingAlgorithm config), Some e)]\<rparr>))"
  using assms
  by (simp add: main_def newHAProxyClient_def invoke_eq start_def client_of_def connected_def
      Let_def)

lemma main_algorithm_ok:
  assumes "env (client_of config) [] Ping = None"
    and "w2 = add_backends env (client_of config) config (Backends config) connected"
    and "env (client_of config) (calls w2)
           (SetLoadBalancingAlgorithm (LoadBalancingAlgorithm config)) = None"
  shows "main env (Inr config) =
     (case setRetryPolicy env (client_of config) (RetryPolicy config)
             (emit (Print_algorithm (LoadBalancingAlgorithm config))
                (w2\<lparr>calls := calls w2 @
                   [(SetLoadBalancingAlgorithm (LoadBalancingAlgorithm config), None)]\<rparr>)) of
        (Some e, w5) \<Rightarrow> (Fatal, emit (Fatal_retryPolicy e) w5)
      | (None, w5) \<Rightarrow> (Done, w5))"
  using assms
  by (simp add: main_def newHAProxyClient_def invoke_eq start_def client_of_def connected_def
      Let_def)

text \<open>
  The calls of a run whose probe succeeded: the probe, the registration attempts
  backend by backend, the algorithm, and then only key/value calls; none of these if
  the algorithm call failed.
\<close>

lemma main_shape:
  assumes ping: "env (client_of config) [] Ping = None"
  shows "\<exists>ks seg r rest. length ks = length (Backends config) \<and>
     (\<forall>k\<in>set ks. 1 \<le> k \<and> k \<le> 3) \<and>
     map fst seg = attempts config (Backends config) ks \<and>
     calls (snd (main env (Inr config))) =
       (Ping, None) # seg @
       (SetLoadBalancingAlgorithm (LoadBalancingAlgorithm config), r) # rest \<and>
     (\<forall>x\<in>set rest. \<exists>k v. fst x = SetConfig k v) \<and>
     (r \<noteq> None \<longrightarrow> rest = [] \<and> fst (main env (Inr config)) = Fatal)"
proof -
  define w2 where "w2 = add_backends env (client_of config) config (Backends config) connected"
  let ?a = "SetLoadBalancingAlgorithm (LoadBalancingAlgorithm config)"
  from add_backends_segment [of "Backends config" env "client_of config" config connected]
  obtain ks seg where ks: "length ks = length (Backends config)"
      "\<forall>k\<in>set ks. 1 \<le> k \<and> k \<le> 3"
    and seg: "calls w2 = (Ping, None) # seg"
    and cs: "map fst seg = attempts config (Backends config) ks"
    unfolding w2_def by (auto simp: connected_def)
  show ?thesis
  proof (cases "env (client_of config) (calls w2) ?a")
    case (Some e)
    have "calls (snd (main env (Inr config))) = (Ping, None) # seg @ (?a, Some e) # []"
         "fst (main env (Inr config)) = Fatal"
      by (simp_all add: main_algorithm_failed [of env config w2 e, OF ping w2_def Some]
          emit_calls seg)
    with ks cs show ?thesis
      by (intro exI [of _ ks] exI [of _ seg] exI [of _ "Some e"] exI [of _ "[]"]) simp
  next
    case None
    let ?w4 = "emit (Print_algorithm (LoadBalancingAlgorithm config))
                 (w2\<lparr>calls := calls w2 @ [(?a, None)]\<rparr>)"
    from setRetryPolicy_segment [of env "client_of config" "RetryPolicy config" ?w4]
    obtain rest where
      rest: "calls (snd (setRetryPolicy env (client_of config) (RetryPolicy config) ?w4)) =
               calls ?w4 @ rest"
      and cfg: "\<forall>x\<in>set rest. \<exists>k v. fst x = SetConfig k v"
      by blast
    obtain r5 w5 where
      rp: "setRetryPolicy env (client_of config) (RetryPolicy config) ?w4 = (r5, w5)"
      by (cases "setRetryPolicy env (client_of config) (RetryPolicy config) ?w4")
    have "calls w5 = (Ping, None) # seg @ (?a, None) # rest"
      using rest unfolding rp by (simp add: emit_calls seg)
    then have "calls (snd (main env (Inr config))) = (Ping, None) # seg @ (?a, None) # rest"
      unfolding main_algorithm_ok [of env config w2, OF ping w2_def None] rp
      by (simp add: emit_calls split: option.split)
    with ks cs cfg show ?thesis
      by (intro exI [of _ ks] exI [of _ seg] exI [of _ None] exI [of _ rest]) simp
  qed
qed

lemma main_AddServer_origin:
  assumes "(AddServer s, r) \<in> set (calls (snd (main env (Inr config))))"
  shows "\<exists>b\<in>set (Backends config). s = server_of config b"
proof (cases "env (client_of config) [] Ping")
  case (Some e)
  with assms show ?thesis by (simp add: main_ping_failed)
next
  case None
  from main_shape [of env config, OF None]
  obtain ks seg r' rest where
    cs: "map fst seg = attempts config (Backends config) ks"
    and tr: "calls (snd (main env (Inr config))) =
       (Ping, None) # seg @
       (SetLoadBalancingAlgorithm (LoadBalancingAlgorithm config), r') # rest"
    and cfg: "\<forall>x\<in>set rest. \<exists>k v. fst x = SetConfig k v"
    by blast
  from assms tr cfg have "(AddServer s, r) \<in> set seg" by fastforce
  then have "AddServer s \<in> set (map fst seg)" by force
  with cs attempts_origin show ?thesis by fastforce
qed

subsection \<open>Example runs\<close>

lemmas example_defs = backend1_def backend2_def example_config_def unchecked_config_def
  example_client_def refused_def server1_def server2_def unchecked1_def unchecked2_def

lemmas run_defs = main_def newHAProxyClient_def invoke_eq start_def emit_def connected_def
  addServerWithRetry_def loop_fail loop_ok loop_exhausted setRetryPolicy_def server_of_def
  fmt_d_def digit_def digits.simps Let_def


lemma run_unchecked:
  "main always_ok (Inr unchecked_config) = (Done,
     \<lparr>calls = [(Ping, None), (AddServer unchecked1, None), (AddServer unchecked2, None),
        (SetLoadBalancingAlgorithm ''roundrobin'', None), (SetConfig ''retries'' ''3'', None),
        (SetConfig ''option redispatch'' ''on'', None)],
      out = [Print_added ''server1'', Print_added ''server2'', Print_algorithm ''roundrobin'',
        Print_retryPolicy 3 True]\<rparr>)"
  by (simp add: example_defs run_defs always_ok_def)

lemma run_server1_down:
  "main server1_down (Inr example_config) = (Done,
     \<lparr>calls = [(Ping, None), (AddServer server1, Some refused),
        (AddServer server1, Some refused), (AddServer server1, Some refused),
        (AddServer server2, None), (SetLoadBalancingAlgorithm ''roundrobin'', None),
        (SetConfig ''retries'' ''3'', None), (SetConfig ''option redispatch'' ''on'', None)],
      out = [Print_addFailed ''server1'' 1 3 refused, Print_addFailed ''server1'' 2 3 refused,
        Print_addFailed ''server1'' 3 3 refused,
        Log_addServerFinal ''server1'' (AddServerFailed ''server1'' (Some refused)),
        Print_added ''server2'', Print_algorithm ''roundrobin'',
        Print_retryPolicy 3 True]\<rparr>)"
  by (simp add: example_defs run_defs server1_down_def)

lemma run_algorithm_rejected:
  "main algorithm_rejected (Inr example_config) = (Fatal,
     \<lparr>calls = [(Ping, None), (AddServer server1, None), (AddServer server2, None),
        (SetLoadBalancingAlgorithm ''roundrobin'', Some refused)],
      out = [Print_added ''server1'', Print_added ''server2'', Fatal_algorithm refused]\<rparr>)"
  by (simp add: example_defs run_defs algorithm_rejected_def)

lemma run_ping_down:
  "main ping_down (Inr example_config) = (Fatal,
     \<lparr>calls = [(Ping, Some refused)],
      out = [Fatal_newHAProxyClient (ConnectFailed refused)]\<rparr>)"
  by (simp add: example_defs run_defs ping_down_def)

section \<open>The properties\<close>

subsection \<open>Server registration with retry\<close>

text \<open>
  C2. For a server whose registration call fails on each of the three attempts,
  \<open>addServerWithRetry\<close> with the bound 3 that \<open>main\<close> passes calls \<open>AddServer\<close>
  exactly three times, reports each failure, and returns an error that wraps the
  last failure.
\<close>

theorem addServerWithRetry_all_fail_three_calls:
  assumes "env client (calls w) (AddServer server) = Some ea"
    and "env client (calls w @ [(AddServer server, Some ea)]) (AddServer server) = Some eb"
    and "env client (calls w @ [(AddServer server, Some ea), (AddServer server, Some eb)])
           (AddServer server) = Some ec"
  shows "addServerWithRetry env client server 3 w =
     (Some (AddServerFailed (Server_Name server) (Some ec)),
      w\<lparr>calls := calls w @ [(AddServer server, Some ea), (AddServer server, Some eb),
                             (AddServer server, Some ec)],
        out := out w @ [Print_addFailed (Server_Name server) 1 3 ea,
                        Print_addFailed (Server_Name server) 2 3 eb,
                        Print_addFailed (Server_Name server) 3 3 ec]\<rparr>)"
  using assms
  by (simp add: addServerWithRetry_def loop_fail loop_exhausted emit_def)

theorem addServerWithRetry_all_fail_three_calls_witness:
  "server1_down example_client (calls connected) (AddServer server1) = Some refused \<and>
   fst (addServerWithRetry server1_down example_client server1 3 connected) =
     Some (AddServerFailed ''server1'' (Some refused)) \<and>
   map fst (calls (snd (addServerWithRetry server1_down example_client server1 3 connected))) =
     [Ping, AddServer server1, AddServer server1, AddServer server1]"
  using addServerWithRetry_all_fail_three_calls
    [of server1_down example_client connected server1 refused refused refused]
  by (simp add: server1_down_def server1_def connected_def)

text \<open>
  C7. For a server whose registration call fails on the first attempt and succeeds on
  the second, \<open>addServerWithRetry\<close> (with a bound of at least 2, as the 3 of \<open>main\<close>)
  calls \<open>AddServer\<close> exactly twice, returns nil and prints that the server was added:
  the loop stops at the first success.
\<close>

theorem addServerWithRetry_stops_on_success:
  assumes "2 \<le> retries"
    and "env client (calls w) (AddServer server) = Some ea"
    and "env client (calls w @ [(AddServer server, Some ea)]) (AddServer server) = None"
  shows "addServerWithRetry env client server retries w =
     (None,
      w\<lparr>calls := calls w @ [(AddServer server, Some ea), (AddServer server, None)],
        out := out w @ [Print_addFailed (Server_Name server) 1 retries ea,
                        Print_added (Server_Name server)]\<rparr>)"
  using assms
  by (simp add: addServerWithRetry_def loop_fail loop_ok emit_def)

theorem addServerWithRetry_stops_on_success_witness:
  "(2::int) \<le> 3 \<and>
   first_attempt_fails example_client (calls connected) (AddServer server1) = Some refused \<and>
   first_attempt_fails example_client (calls connected @ [(AddServer server1, Some refused)])
     (AddServer server1) = None \<and>
   addServerWithRetry first_attempt_fails example_client server1 3 connected =
     (None,
      \<lparr>calls = [(Ping, None), (AddServer server1, Some refused), (AddServer server1, None)],
       out = [Print_addFailed ''server1'' 1 3 refused, Print_added ''server1'']\<rparr>)"
  using addServerWithRetry_stops_on_success
    [of 3 first_attempt_fails example_client connected server1 refused]
  by (simp add: first_attempt_fails_def server1_def connected_def)

text \<open>
  C10. With a bound \<open>retries \<le> 0\<close>, \<open>addServerWithRetry\<close> makes no call and prints
  nothing, and still returns an error; the cause that error wraps is nil, since no
  attempt was made.
\<close>

theorem addServerWithRetry_no_attempts:
  assumes "retries \<le> 0"
  shows "addServerWithRetry env client server retries w =
           (Some (AddServerFailed (Server_Name server) None), w) \<and>
         Unwrap (AddServerFailed (Server_Name server) None) = None"
  using assms by (simp add: addServerWithRetry_def loop_exhausted)

theorem addServerWithRetry_no_attempts_witness:
  "(0::int) \<le> 0 \<and>
   addServerWithRetry always_ok example_client server1 0 connected =
     (Some (AddServerFailed ''server1'' None), connected) \<and>
   addServerWithRetry always_ok example_client server1 (- 2) connected =
     (Some (AddServerFailed ''server1'' None), connected)"
  using addServerWithRetry_no_attempts [of 0 always_ok example_client server1 connected]
    addServerWithRetry_no_attempts [of "- 2" always_ok example_client server1 connected]
  by (simp add: server1_def)

subsection \<open>The retry policy\<close>

text \<open>
  C3. \<open>setRetryPolicy\<close> first sets \<open>retries\<close> to the configured count written in
  decimal: the value sent is the canonical decimal numeral of the count (with a minus
  sign for a negative count), so it denotes that count and no other. If that call
  fails, it is the only call and the result is an error. If it succeeds, the next and
  last call sets \<open>option redispatch\<close> to \<open>on\<close> or \<open>off\<close>, and the result is an error
  exactly when this second call fails. For 3 retries with redispatch, the calls are
  \<open>(retries, 3)\<close> then \<open>(option redispatch, on)\<close>.
\<close>

theorem setRetryPolicy_retries_then_redispatch:
  "(env client (calls w) (SetConfig ''retries'' (fmt_d (Retries rp))) = Some e \<longrightarrow>
      setRetryPolicy env client rp w =
        (Some (RetriesFailed (Retries rp) e),
         w\<lparr>calls := calls w @ [(SetConfig ''retries'' (fmt_d (Retries rp)), Some e)]\<rparr>)) \<and>
   (env client (calls w) (SetConfig ''retries'' (fmt_d (Retries rp))) = None \<longrightarrow>
      (\<exists>r. calls (snd (setRetryPolicy env client rp w)) =
              calls w @ [(SetConfig ''retries'' (fmt_d (Retries rp)), None),
                         (SetConfig ''option redispatch''
                            (if Redispatch rp then ''on'' else ''off''), r)] \<and>
            (case r of
               Some e' \<Rightarrow> fst (setRetryPolicy env client rp w) = Some (RedispatchFailed e')
             | None \<Rightarrow> fst (setRetryPolicy env client rp w) = None))) \<and>
   (Retries rp = 3 \<and> Redispatch rp \<and>
    env client (calls w) (SetConfig ''retries'' ''3'') = None \<longrightarrow>
      map fst (calls (snd (setRetryPolicy env client rp w))) =
        map fst (calls w) @ [SetConfig ''retries'' ''3'', SetConfig ''option redispatch'' ''on'']) \<and>
   (\<exists>v r. take 1 (drop (length (calls w)) (calls (snd (setRetryPolicy env client rp w)))) =
            [(SetConfig ''retries'' v, r)] \<and>
          v = fmt_d (Retries rp) \<and>
          is_stringified v (Retries rp) \<and>
          (0 \<le> Retries rp \<longrightarrow> decimal v = nat (Retries rp)) \<and>
          (Retries rp < 0 \<longrightarrow> hd v = CHR ''-'' \<and> decimal (tl v) = nat (- Retries rp)))"
proof (intro conjI impI)
  assume "env client (calls w) (SetConfig ''retries'' (fmt_d (Retries rp))) = Some e"
  then show "setRetryPolicy env client rp w =
        (Some (RetriesFailed (Retries rp) e),
         w\<lparr>calls := calls w @ [(SetConfig ''retries'' (fmt_d (Retries rp)), Some e)]\<rparr>)"
    by (simp add: setRetryPolicy_def invoke_eq)
next
  assume "env client (calls w) (SetConfig ''retries'' (fmt_d (Retries rp))) = None"
  then show "\<exists>r. calls (snd (setRetryPolicy env client rp w)) =
              calls w @ [(SetConfig ''retries'' (fmt_d (Retries rp)), None),
                         (SetConfig ''option redispatch''
                            (if Redispatch rp then ''on'' else ''off''), r)] \<and>
            (case r of
               Some e' \<Rightarrow> fst (setRetryPolicy env client rp w) = Some (RedispatchFailed e')
             | None \<Rightarrow> fst (setRetryPolicy env client rp w) = None)"
    by (simp add: setRetryPolicy_def invoke_eq emit_calls Let_def split: option.split)
next
  assume "Retries rp = 3 \<and> Redispatch rp \<and>
    env client (calls w) (SetConfig ''retries'' ''3'') = None"
  then show "map fst (calls (snd (setRetryPolicy env client rp w))) =
        map fst (calls w) @ [SetConfig ''retries'' ''3'', SetConfig ''option redispatch'' ''on'']"
    by (simp add: setRetryPolicy_def invoke_eq emit_calls Let_def fmt_d_3 split: option.split)
next
  let ?v = "fmt_d (Retries rp)"
  let ?r = "env client (calls w) (SetConfig ''retries'' ?v)"
  have first: "take 1 (drop (length (calls w)) (calls (snd (setRetryPolicy env client rp w)))) =
      [(SetConfig ''retries'' ?v, ?r)]"
    by (simp add: setRetryPolicy_def invoke_eq emit_calls Let_def split: option.split)
  have str: "is_stringified ?v (Retries rp)" by (rule fmt_d_stringified)
  have pos: "0 \<le> Retries rp \<longrightarrow> decimal ?v = nat (Retries rp)"
    by (simp add: fmt_d_nonneg)
  have neg: "Retries rp < 0 \<longrightarrow> hd ?v = CHR ''-'' \<and> decimal (tl ?v) = nat (- Retries rp)"
    by (simp add: fmt_d_def decimal_digits)
  from first str pos neg
  show "\<exists>v r. take 1 (drop (length (calls w)) (calls (snd (setRetryPolicy env client rp w)))) =
            [(SetConfig ''retries'' v, r)] \<and>
          v = fmt_d (Retries rp) \<and>
          is_stringified v (Retries rp) \<and>
          (0 \<le> Retries rp \<longrightarrow> decimal v = nat (Retries rp)) \<and>
          (Retries rp < 0 \<longrightarrow> hd v = CHR ''-'' \<and> decimal (tl v) = nat (- Retries rp))"
    by (intro exI [of _ ?v] exI [of _ ?r]) simp
qed

theorem setRetryPolicy_retries_then_redispatch_witness:
  "retries_rejected example_client [] (SetConfig ''retries'' ''3'') = Some refused \<and>
   setRetryPolicy retries_rejected example_client \<lparr>Retries = 3, Redispatch = True\<rparr> start =
     (Some (RetriesFailed 3 refused),
      \<lparr>calls = [(SetConfig ''retries'' ''3'', Some refused)], out = []\<rparr>) \<and>
   always_ok example_client [] (SetConfig ''retries'' ''3'') = None \<and>
   map fst (calls (snd (setRetryPolicy always_ok example_client
                          \<lparr>Retries = 3, Redispatch = True\<rparr> start))) =
     [SetConfig ''retries'' ''3'', SetConfig ''option redispatch'' ''on''] \<and>
   is_stringified ''3'' 3 \<and> decimal ''3'' = nat 3 \<and>
   map fst (calls (snd (setRetryPolicy always_ok example_client
                          \<lparr>Retries = 5, Redispatch = False\<rparr> start))) =
     [SetConfig ''retries'' ''5'', SetConfig ''option redispatch'' ''off''] \<and>
   is_stringified ''5'' 5 \<and> decimal ''5'' = nat 5"
  using setRetryPolicy_retries_then_redispatch
    [of retries_rejected example_client start "\<lparr>Retries = 3, Redispatch = True\<rparr>" refused]
    setRetryPolicy_retries_then_redispatch
    [of always_ok example_client start "\<lparr>Retries = 3, Redispatch = True\<rparr>" refused]
    setRetryPolicy_retries_then_redispatch
    [of always_ok example_client start "\<lparr>Retries = 5, Redispatch = False\<rparr>" refused]
  by (simp add: retries_rejected_def always_ok_def start_def fmt_d_3 fmt_d_5 setRetryPolicy_def
      invoke_eq emit_calls is_stringified_def is_decimal_of_def decimal_def)

subsection \<open>The fatal stages of a run\<close>

text \<open>
  C4. In a run whose connectivity probe fails, the run ends fatally and the failed
  \<open>Ping\<close> is the only call made: no server is registered, no algorithm is set and no
  key/value call is issued.
\<close>

theorem ping_failure_aborts_run:
  assumes "(Ping, Some e) \<in> set (calls (snd (main env loaded)))"
  shows "fst (main env loaded) = Fatal \<and> calls (snd (main env loaded)) = [(Ping, Some e)]"
proof (cases loaded)
  case (Inl e')
  with assms show ?thesis by (simp add: main_load_failed)
next
  case (Inr config)
  show ?thesis
  proof (cases "env (client_of config) [] Ping")
    case (Some e')
    with assms Inr show ?thesis by (simp add: main_ping_failed)
  next
    case None
    from main_shape [of env config, OF None]
    obtain ks seg r rest where
      cs: "map fst seg = attempts config (Backends config) ks"
      and tr: "calls (snd (main env (Inr config))) =
         (Ping, None) # seg @
         (SetLoadBalancingAlgorithm (LoadBalancingAlgorithm config), r) # rest"
      and cfg: "\<forall>x\<in>set rest. \<exists>k v. fst x = SetConfig k v"
      by blast
    from assms Inr tr cfg have "(Ping, Some e) \<in> set seg" by fastforce
    with attempts_segment [OF cs] show ?thesis by fastforce
  qed
qed

theorem ping_failure_aborts_run_witness:
  "(Ping, Some refused) \<in> set (calls (snd (main ping_down (Inr example_config)))) \<and>
   fst (main ping_down (Inr example_config)) = Fatal \<and>
   calls (snd (main ping_down (Inr example_config))) = [(Ping, Some refused)]"
  using ping_failure_aborts_run [of refused ping_down "Inr example_config"]
  by (simp add: run_ping_down)

text \<open>
  C6. In a run whose \<open>SetLoadBalancingAlgorithm\<close> call fails, the run ends fatally,
  that call is the last one, and no key/value call (neither \<open>retries\<close> nor
  \<open>option redispatch\<close>) is made.
\<close>

theorem algorithm_failure_aborts_run:
  assumes "(SetLoadBalancingAlgorithm a, Some e) \<in> set (calls (snd (main env loaded)))"
  shows "fst (main env loaded) = Fatal \<and>
         last (calls (snd (main env loaded))) = (SetLoadBalancingAlgorithm a, Some e) \<and>
         (\<forall>k v r. (SetConfig k v, r) \<notin> set (calls (snd (main env loaded))))"
proof (cases loaded)
  case (Inl e')
  with assms show ?thesis by (simp add: main_load_failed)
next
  case (Inr config)
  show ?thesis
  proof (cases "env (client_of config) [] Ping")
    case (Some e')
    with assms Inr show ?thesis by (simp add: main_ping_failed)
  next
    case None
    let ?alg = "SetLoadBalancingAlgorithm (LoadBalancingAlgorithm config)"
    from main_shape [of env config, OF None]
    obtain ks seg r rest where
      cs: "map fst seg = attempts config (Backends config) ks"
      and tr: "calls (snd (main env (Inr config))) = (Ping, None) # seg @ (?alg, r) # rest"
      and cfg: "\<forall>x\<in>set rest. \<exists>k v. fst x = SetConfig k v"
      and fatal: "r \<noteq> None \<longrightarrow> rest = [] \<and> fst (main env (Inr config)) = Fatal"
      by blast
    have adds: "\<And>x. x \<in> set seg \<Longrightarrow> \<exists>s. fst x = AddServer s"
      by (rule attempts_segment [OF cs])
    from assms Inr tr cfg adds have "(SetLoadBalancingAlgorithm a, Some e) = (?alg, r)"
      by fastforce
    then have r: "?alg = SetLoadBalancingAlgorithm a" "r = Some e" by simp_all
    with fatal have rest: "rest = []" and f: "fst (main env (Inr config)) = Fatal"
      by simp_all
    have "\<forall>k v r'. (SetConfig k v, r') \<notin> set (calls (snd (main env (Inr config))))"
      using adds by (fastforce simp: tr rest)
    with f show ?thesis by (simp add: Inr tr rest r)
  qed
qed

theorem algorithm_failure_aborts_run_witness:
  "(SetLoadBalancingAlgorithm ''roundrobin'', Some refused)
     \<in> set (calls (snd (main algorithm_rejected (Inr example_config)))) \<and>
   main algorithm_rejected (Inr example_config) = (Fatal,
     \<lparr>calls = [(Ping, None), (AddServer server1, None), (AddServer server2, None),
        (SetLoadBalancingAlgorithm ''roundrobin'', Some refused)],
      out = [Print_added ''server1'', Print_added ''server2'', Fatal_algorithm refused]\<rparr>)"
  using algorithm_failure_aborts_run
    [of "''roundrobin''" refused algorithm_rejected "Inr example_config"]
  by (simp add: run_algorithm_rejected)

subsection \<open>Registration of the declared servers\<close>

text \<open>
  C5. Once the probe has succeeded, the algorithm call is always issued, whatever
  happened to the registrations. In particular, for the servers \<open>[A, B]\<close> where the
  three attempts for \<open>A\<close> fail and the first attempt for \<open>B\<close> succeeds, the run makes
  three calls for \<open>A\<close>, logs the final failure of \<open>A\<close> with the wrapped cause, makes
  one successful call for \<open>B\<close>, prints that \<open>B\<close> was added, and then issues the
  algorithm call.
\<close>

theorem failed_server_does_not_stop_run:
  assumes ping: "env \<lparr>Endpoint = HaproxyEndpoint config, ApiKey = APIKey config\<rparr> [] Ping = None"
  shows "SetLoadBalancingAlgorithm (LoadBalancingAlgorithm config)
           \<in> set (map fst (calls (snd (main env (Inr config))))) \<and>
    (Backends config = [A, B] \<and>
     env \<lparr>Endpoint = HaproxyEndpoint config, ApiKey = APIKey config\<rparr>
       [(Ping, None)] (AddServer (server_of config A)) = Some ea \<and>
     env \<lparr>Endpoint = HaproxyEndpoint config, ApiKey = APIKey config\<rparr>
       [(Ping, None), (AddServer (server_of config A), Some ea)]
       (AddServer (server_of config A)) = Some eb \<and>
     env \<lparr>Endpoint = HaproxyEndpoint config, ApiKey = APIKey config\<rparr>
       [(Ping, None), (AddServer (server_of config A), Some ea),
        (AddServer (server_of config A), Some eb)]
       (AddServer (server_of config A)) = Some ec \<and>
     env \<lparr>Endpoint = HaproxyEndpoint config, ApiKey = APIKey config\<rparr>
       [(Ping, None), (AddServer (server_of config A), Some ea),
        (AddServer (server_of config A), Some eb), (AddServer (server_of config A), Some ec)]
       (AddServer (server_of config B)) = None \<longrightarrow>
     take 5 (calls (snd (main env (Inr config)))) =
       [(Ping, None), (AddServer (server_of config A), Some ea),
        (AddServer (server_of config A), Some eb), (AddServer (server_of config A), Some ec),
        (AddServer (server_of config B), None)] \<and>
     take 6 (map fst (calls (snd (main env (Inr config))))) =
       [Ping, AddServer (server_of config A), AddServer (server_of config A),
        AddServer (server_of config A), AddServer (server_of config B),
        SetLoadBalancingAlgorithm (LoadBalancingAlgorithm config)] \<and>
     take 5 (out (snd (main env (Inr config)))) =
       [Print_addFailed (Name A) 1 3 ea, Print_addFailed (Name A) 2 3 eb,
        Print_addFailed (Name A) 3 3 ec,
        Log_addServerFinal (Name A) (AddServerFailed (Name A) (Some ec)),
        Print_added (Name B)])"
proof (intro conjI impI)
  from ping have p: "env (client_of config) [] Ping = None" by (simp add: client_of_def)
  from main_shape [of env config, OF p]
  show "SetLoadBalancingAlgorithm (LoadBalancingAlgorithm config)
           \<in> set (map fst (calls (snd (main env (Inr config)))))"
    by force
next
  let ?cl = "client_of config"
  let ?sA = "server_of config A" and ?sB = "server_of config B"
  let ?alg = "SetLoadBalancingAlgorithm (LoadBalancingAlgorithm config)"
  assume "Backends config = [A, B] \<and>
     env \<lparr>Endpoint = HaproxyEndpoint config, ApiKey = APIKey config\<rparr>
       [(Ping, None)] (AddServer (server_of config A)) = Some ea \<and>
     env \<lparr>Endpoint = HaproxyEndpoint config, ApiKey = APIKey config\<rparr>
       [(Ping, None), (AddServer (server_of config A), Some ea)]
       (AddServer (server_of config A)) = Some eb \<and>
     env \<lparr>Endpoint = HaproxyEndpoint config, ApiKey = APIKey config\<rparr>
       [(Ping, None), (AddServer (server_of config A), Some ea),
        (AddServer (server_of config A), Some eb)]
       (AddServer (server_of config A)) = Some ec \<and>
     env \<lparr>Endpoint = HaproxyEndpoint config, ApiKey = APIKey config\<rparr>
       [(Ping, None), (AddServer (server_of config A), Some ea),
        (AddServer (server_of config A), Some eb), (AddServer (server_of config A), Some ec)]
       (AddServer (server_of config B)) = None"
  then have bs: "Backends config = [A, B]"
    and a1: "env ?cl [(Ping, None)] (AddServer ?sA) = Some ea"
    and a2: "env ?cl [(Ping, None), (AddServer ?sA, Some ea)] (AddServer ?sA) = Some eb"
    and a3: "env ?cl [(Ping, None), (AddServer ?sA, Some ea), (AddServer ?sA, Some eb)]
               (AddServer ?sA) = Some ec"
    and b1: "env ?cl [(Ping, None), (AddServer ?sA, Some ea), (AddServer ?sA, Some eb),
               (AddServer ?sA, Some ec)] (AddServer ?sB) = None"
    by (simp_all add: client_of_def)
  from ping have p: "env ?cl [] Ping = None" by (simp add: client_of_def)
  define wA where
    "wA = \<lparr>calls = [(Ping, None), (AddServer ?sA, Some ea), (AddServer ?sA, Some eb),
                     (AddServer ?sA, Some ec)],
           out = [Print_addFailed (Server_Name ?sA) 1 3 ea,
                  Print_addFailed (Server_Name ?sA) 2 3 eb,
                  Print_addFailed (Server_Name ?sA) 3 3 ec]\<rparr>"
  define w2 where
    "w2 = \<lparr>calls = [(Ping, None), (AddServer ?sA, Some ea), (AddServer ?sA, Some eb),
                     (AddServer ?sA, Some ec), (AddServer ?sB, None)],
           out = [Print_addFailed (Name A) 1 3 ea, Print_addFailed (Name A) 2 3 eb,
                  Print_addFailed (Name A) 3 3 ec,
                  Log_addServerFinal (Name A) (AddServerFailed (Name A) (Some ec)),
                  Print_added (Name B)]\<rparr>"
  have nA: "Server_Name ?sA = Name A" and nB: "Server_Name ?sB = Name B"
    by (simp_all add: server_of_Name)
  have A: "addServerWithRetry env ?cl ?sA 3 connected =
             (Some (AddServerFailed (Server_Name ?sA) (Some ec)), wA)"
    using a1 a2 a3
    by (simp add: addServerWithRetry_def loop_fail loop_exhausted emit_def connected_def wA_def)
  have B: "addServerWithRetry env ?cl ?sB 3
             (emit (Log_addServerFinal (Name A) (AddServerFailed (Server_Name ?sA) (Some ec))) wA) =
             (None, w2)"
    using b1
    by (simp add: addServerWithRetry_def loop_ok emit_def wA_def w2_def nA nB)
  have w2: "w2 = add_backends env ?cl config (Backends config) connected"
    unfolding bs by (simp add: A B)
  have "take 5 (calls (snd (main env (Inr config)))) = calls w2 \<and>
        take 6 (map fst (calls (snd (main env (Inr config))))) = map fst (calls w2) @ [?alg] \<and>
        take 5 (out (snd (main env (Inr config)))) = out w2"
  proof (cases "env ?cl (calls w2) ?alg")
    case (Some e)
    show ?thesis
      unfolding main_algorithm_failed [of env config w2 e, OF p w2 Some]
      by (simp add: emit_def) (simp add: w2_def)
  next
    case None
    let ?w4 = "emit (Print_algorithm (LoadBalancingAlgorithm config))
                 (w2\<lparr>calls := calls w2 @ [(?alg, None)]\<rparr>)"
    obtain r5 w5 where rp: "setRetryPolicy env ?cl (RetryPolicy config) ?w4 = (r5, w5)"
      by (cases "setRetryPolicy env ?cl (RetryPolicy config) ?w4")
    from setRetryPolicy_segment [of env ?cl "RetryPolicy config" ?w4]
    obtain seg where c5: "calls w5 = calls w2 @ (?alg, None) # seg"
      unfolding rp by (auto simp: emit_calls)
    from setRetryPolicy_out [of env ?cl "RetryPolicy config" ?w4]
    obtain ms where o5: "out w5 = out w2 @ Print_algorithm (LoadBalancingAlgorithm config) # ms"
      unfolding rp by (auto simp: emit_out)
    have len: "length (calls w2) = 5" "length (out w2) = 5" by (simp_all add: w2_def)
    show ?thesis
      unfolding main_algorithm_ok [of env config w2, OF p w2 None] rp
      by (simp add: emit_calls emit_out c5 o5 len split: option.split)
  qed
  then show "take 5 (calls (snd (main env (Inr config)))) =
       [(Ping, None), (AddServer (server_of config A), Some ea),
        (AddServer (server_of config A), Some eb), (AddServer (server_of config A), Some ec),
        (AddServer (server_of config B), None)]"
    and "take 6 (map fst (calls (snd (main env (Inr config))))) =
       [Ping, AddServer (server_of config A), AddServer (server_of config A),
        AddServer (server_of config A), AddServer (server_of config B),
        SetLoadBalancingAlgorithm (LoadBalancingAlgorithm config)]"
    and "take 5 (out (snd (main env (Inr config)))) =
       [Print_addFailed (Name A) 1 3 ea, Print_addFailed (Name A) 2 3 eb,
        Print_addFailed (Name A) 3 3 ec,
        Log_addServerFinal (Name A) (AddServerFailed (Name A) (Some ec)),
        Print_added (Name B)]"
    by (simp_all add: w2_def)
qed

theorem failed_server_does_not_stop_run_witness:
  "server1_down \<lparr>Endpoint = HaproxyEndpoint example_config, ApiKey = APIKey example_config\<rparr>
     [] Ping = None \<and>
   Backends example_config = [backend1, backend2] \<and>
   server_of example_config backend1 = server1 \<and>
   server_of example_config backend2 = server2 \<and>
   server1_down example_client [(Ping, None)] (AddServer server1) = Some refused \<and>
   take 6 (map fst (calls (snd (main server1_down (Inr example_config))))) =
     [Ping, AddServer server1, AddServer server1, AddServer server1, AddServer server2,
      SetLoadBalancingAlgorithm ''roundrobin''] \<and>
   take 5 (out (snd (main server1_down (Inr example_config)))) =
     [Print_addFailed ''server1'' 1 3 refused, Print_addFailed ''server1'' 2 3 refused,
      Print_addFailed ''server1'' 3 3 refused,
      Log_addServerFinal ''server1'' (AddServerFailed ''server1'' (Some refused)),
      Print_added ''server2'']"
  using failed_server_does_not_stop_run
    [of server1_down example_config backend1 backend2 refused refused refused]
  by (simp add: run_server1_down) (simp add: example_defs server_of_def server1_down_def
      fmt_d_5 Let_def)



subsection \<open>Health-check fields of the registered server\<close>



text \<open>
  What main.go itself fixes when health checking is disabled: every registration call
  of a run receives a server value whose \<open>Inter\<close>, \<open>Fall\<close> and \<open>Rise\<close> fields were
  never assigned, so they hold the zero values of their types (the empty string, 0 and
  0), and whose \<open>Check\<close> is false, whatever interval, fall and rise the configuration
  gives. What the client library then puts into the request for such a value is
  outside main.go and outside this model.
\<close>

lemma disabled_health_check_fields_unassigned:
  assumes "\<not> Enabled (HealthCheck config)"
    and "(AddServer s, r) \<in> set (calls (snd (main env (Inr config))))"
  shows "Server_Inter s = [] \<and> Server_Fall s = 0 \<and> Server_Rise s = 0 \<and> \<not> Server_Check s"
proof -
  from main_AddServer_origin [OF assms(2)]
  obtain b where "s = server_of config b" by blast
  with assms(1) show ?thesis by (simp add: server_of_def)
qed

lemma disabled_health_check_fields_unassigned_example:
  "Enabled (HealthCheck unchecked_config) = False \<and>
   Interval (HealthCheck unchecked_config) = 5 \<and>
   Fall (HealthCheck unchecked_config) = 3 \<and>
   Rise (HealthCheck unchecked_config) = 2 \<and>
   (AddServer unchecked1, None) \<in> set (calls (snd (main always_ok (Inr unchecked_config)))) \<and>
   Server_Inter unchecked1 = [] \<and> Server_Fall unchecked1 = 0 \<and> Server_Rise unchecked1 = 0"
  using disabled_health_check_fields_unassigned [of unchecked_config unchecked1 None always_ok]
  by (simp add: run_unchecked) (simp add: example_defs)

end
